theory Spec2Isabelle
  imports Main "HOL-Library.AList"
begin

section \<open>Credential helpers (dulwich/credentials.py)\<close>

subsection \<open>Strings, byte strings and errors\<close>

text \<open>
  A Python \<open>str\<close> is a sequence of Unicode code points, a \<open>bytes\<close> object a sequence of
  8-bit characters. String literals of the source are written as HOL strings and lifted
  with \<open>ustr\<close>.
\<close>

type_synonym str = "nat list"
type_synonym bytes = "string"

definition ustr :: "string \<Rightarrow> str" where
  "ustr s = map of_char s"

text \<open>The payload of an exception: \<open>exc.stderr\<close> is \<open>bytes\<close>, the fixed messages are \<open>str\<close>.\<close>

datatype payload = Bytes bytes | Text string

datatype error =
    CredentialNotFoundError payload
  | NotImplementedError
  | UnicodeEncodeError
  | ValueError
  | IndexError
  | FileNotFoundError
  | CalledProcessError bytes
  | OSError

text \<open>\<open>str.encode("ascii")\<close>: every code point below 128 is one byte, anything else raises.\<close>

definition encode_ascii :: "str \<Rightarrow> error + bytes" where
  "encode_ascii s = (if list_all (\<lambda>c. c < 128) s then Inr (map char_of s) else Inl UnicodeEncodeError)"

text \<open>The code points for which \<open>str.isspace\<close> holds; \<open>str.split()\<close> and \<open>str.strip()\<close> use them.\<close>

definition py_isspace :: "nat \<Rightarrow> bool" where
  "py_isspace c \<longleftrightarrow>
     (9 \<le> c \<and> c \<le> 13) \<or> (28 \<le> c \<and> c \<le> 32) \<or> c = 133 \<or> c = 160 \<or> c = 5760 \<or>
     (8192 \<le> c \<and> c \<le> 8202) \<or> c = 8232 \<or> c = 8233 \<or> c = 8239 \<or> c = 8287 \<or> c = 12288"

definition str_strip :: "str \<Rightarrow> str" where
  "str_strip s = rev (dropWhile py_isspace (rev (dropWhile py_isspace s)))"

text \<open>\<open>s.split(maxsplit=1)[0]\<close>: the first whitespace-delimited word; \<open>None\<close> is the
  \<open>IndexError\<close> of indexing the empty list that a blank string splits into.\<close>

definition split_first :: "str \<Rightarrow> str option" where
  "split_first s =
     (let s' = dropWhile py_isspace s
      in if s' = [] then None else Some (takeWhile (\<lambda>c. \<not> py_isspace c) s'))"

text \<open>\<open>bytes.strip()\<close> removes ASCII whitespace (space, \<open>\t \n \v \f \r\<close>) at both ends.\<close>

definition bytes_isspace :: "char \<Rightarrow> bool" where
  "bytes_isspace c \<longleftrightarrow> c = CHR '' '' \<or> (9 \<le> (of_char c :: nat) \<and> (of_char c :: nat) \<le> 13)"

definition bytes_strip :: "bytes \<Rightarrow> bytes" where
  "bytes_strip s = rev (dropWhile bytes_isspace (rev (dropWhile bytes_isspace s)))"

text \<open>\<open>bytes.splitlines()\<close>: lines end at \<open>\n\<close>, \<open>\r\<close> or \<open>\r\n\<close>; the terminators are
  dropped, and there is no empty last line after a final terminator.\<close>

definition is_linebreak :: "char \<Rightarrow> bool" where
  "is_linebreak c \<longleftrightarrow> c = CHR 0x0A \<or> c = CHR 0x0D"

fun splitlines_from :: "bytes \<Rightarrow> bytes \<Rightarrow> bytes list" where
  "splitlines_from line [] = (if line = [] then [] else [line])"
| "splitlines_from line [c] = (if is_linebreak c then [line] else [line @ [c]])"
| "splitlines_from line (c # d # cs) =
     (if c = CHR 0x0D \<and> d = CHR 0x0A then line # splitlines_from [] cs
      else if is_linebreak c then line # splitlines_from [] (d # cs)
      else splitlines_from (line @ [c]) (d # cs))"

definition splitlines :: "bytes \<Rightarrow> bytes list" where
  "splitlines s = splitlines_from [] s"

text \<open>\<open>bytes.split(sep)\<close> for a one-byte separator: cut at every occurrence, so the
  result has one part more than there are separators.\<close>

fun split_on :: "char \<Rightarrow> bytes \<Rightarrow> bytes list" where
  "split_on sep [] = [[]]"
| "split_on sep (c # cs) =
     (if c = sep then [] # split_on sep cs
      else (case split_on sep cs of [] \<Rightarrow> [[c]] | p # ps \<Rightarrow> (c # p) # ps))"

subsection \<open>Collaborators\<close>

text \<open>
  What \<open>get\<close> hands to \<open>subprocess.run\<close>: a shell string or an argument list.
\<close>

datatype invocation = ShellStr str | Argv "str list"

text \<open>
  What launching a process can do: it ran and exited with a return code, its standard
  output and its standard error; the program was not found (\<open>FileNotFoundError\<close>); the
  launch failed with another \<open>OSError\<close> (a file that is not executable, for instance); or
  \<open>subprocess.run\<close> raised an exception that is not an \<open>OSError\<close> before any process
  started (\<open>ValueError\<close> for a null byte in the command, \<open>UnicodeEncodeError\<close> for a
  lone surrogate), which \<open>LaunchRaised\<close> carries.
\<close>

datatype proc = Exited int bytes bytes | LaunchNotFound | LaunchFailed | LaunchRaised error

text \<open>
  The standard library and the operating system, as the code sees them:
  \<open>sys.platform == "win32"\<close> (where \<open>os.linesep\<close> is \<open>\r\n\<close>), \<open>shlex.split\<close>,
  \<open>os.path.isabs\<close>, \<open>os.path.join\<close>, the truth value of \<open>shutil.which(name)\<close> and of
  \<open>shutil.which(name, path=dir)\<close>, the output of \<open>git --exec-path\<close> as \<open>check_output\<close>
  returns it, and the process launcher.
\<close>

record env =
  win32 :: bool
  shlex_split :: "str \<Rightarrow> error + str list"
  isabs :: "str \<Rightarrow> bool"
  path_join :: "str \<Rightarrow> str \<Rightarrow> str"
  which :: "str \<Rightarrow> bool"
  which_in :: "str \<Rightarrow> str \<Rightarrow> bool"
  git_exec_path_output :: "error + str"
  launch :: "invocation \<Rightarrow> bool \<Rightarrow> bytes \<Rightarrow> proc"

definition linesep :: "env \<Rightarrow> str" where
  "linesep e = (if win32 e then [13, 10] else [10])"

text \<open>\<open>subprocess.run(cmd, check=True, stdout=PIPE, stderr=PIPE, input=..., shell=...)\<close>:
  the standard output of a process that exited with 0, \<open>CalledProcessError\<close> carrying the
  standard error when it exited with anything else, and the exception of a launch that
  raised.\<close>

definition subprocess_run :: "env \<Rightarrow> invocation \<Rightarrow> bool \<Rightarrow> bytes \<Rightarrow> error + bytes" where
  "subprocess_run e cmd sh inp =
     (case launch e cmd sh inp of
        Exited rc out err \<Rightarrow> if rc \<noteq> 0 then Inl (CalledProcessError err) else Inr out
      | LaunchNotFound \<Rightarrow> Inl FileNotFoundError
      | LaunchFailed \<Rightarrow> Inl OSError
      | LaunchRaised exc \<Rightarrow> Inl exc)"

subsection \<open>CredentialHelper\<close>

record helper =
  command :: str
  run_shell :: bool

text \<open>\<open>__init__\<close>: indexing an empty command raises.\<close>

definition init :: "str \<Rightarrow> error + helper" where
  "init cmd =
     (if cmd = [] then Inl IndexError
      else Inr \<lparr>command = cmd, run_shell = (hd cmd = 33)\<rparr>)"

text \<open>The argument list after the Windows adjustment of its first entry.\<close>

definition fix_argv0 :: "env \<Rightarrow> str \<Rightarrow> str list \<Rightarrow> error + str list" where
  "fix_argv0 e cmd argv =
     (if win32 e then
        (case split_first cmd of
           None \<Rightarrow> Inl IndexError
         | Some t \<Rightarrow> if argv = [] then Inl IndexError else Inr (argv[0 := t]))
      else Inr argv)"

text \<open>The lookup of a short helper name, lines 72 to 83.\<close>

definition resolve_executable :: "env \<Rightarrow> str \<Rightarrow> error + str" where
  "resolve_executable e name =
     (let executable = ustr ''git-credential-'' @ name
      in if \<not> which e executable \<and> which e (ustr ''git'') then
           (case git_exec_path_output e of
              Inl err \<Rightarrow> Inl err
            | Inr out \<Rightarrow>
                (let git_exec_path = str_strip out
                 in if which_in e executable git_exec_path
                    then Inr (path_join e git_exec_path executable)
                    else Inr executable))
         else Inr executable)"

definition prepare_command :: "env \<Rightarrow> helper \<Rightarrow> error + invocation" where
  "prepare_command e h =
     (if command h = [] then Inl IndexError
      else if hd (command h) = 33 then Inr (ShellStr (tl (command h)))
      else
        (case shlex_split e (command h) of
           Inl err \<Rightarrow> Inl err
         | Inr argv0 \<Rightarrow>
             (case fix_argv0 e (command h) argv0 of
                Inl err \<Rightarrow> Inl err
              | Inr argv \<Rightarrow>
                  if argv = [] then Inl IndexError
                  else if isabs e (hd argv) then Inr (Argv argv)
                  else
                    (case resolve_executable e (hd argv) of
                       Inl err \<Rightarrow> Inl err
                     | Inr executable \<Rightarrow> Inr (Argv (executable # tl argv))))))"

text \<open>The loop of lines 108 to 114 over the lines of the output: a line that does not
  split into exactly two parts raises \<open>ValueError\<close> in the unpacking and is passed over;
  a dictionary assignment replaces the value of a key that is already there.\<close>

fun parse_lines :: "bytes list \<Rightarrow> (bytes \<times> bytes) list \<Rightarrow> (bytes \<times> bytes) list" where
  "parse_lines [] credentials = credentials"
| "parse_lines (line # rest) credentials =
     (case split_on CHR ''='' line of
        [key, val] \<Rightarrow> parse_lines rest (AList.update key val credentials)
      | _ \<Rightarrow> parse_lines rest credentials)"

definition parse_output :: "bytes \<Rightarrow> (bytes \<times> bytes) list" where
  "parse_output out = parse_lines (splitlines (bytes_strip out)) []"

definition has_key :: "bytes \<Rightarrow> (bytes \<times> bytes) list \<Rightarrow> bool" where
  "has_key k credentials \<longleftrightarrow> map_of credentials k \<noteq> None"

definition add_get :: "invocation \<Rightarrow> invocation" where
  "add_get cmd = (case cmd of ShellStr s \<Rightarrow> ShellStr (s @ ustr '' get'') | Argv a \<Rightarrow> Argv (a @ [ustr ''get'']))"

definition helper_input :: "env \<Rightarrow> str \<Rightarrow> error + bytes" where
  "helper_input e url = encode_ascii (ustr ''url='' @ url @ linesep e)"

text \<open>What \<open>get\<close> does with the outcome of \<open>subprocess.run\<close>, lines 94 to 121.\<close>

definition finish :: "error + bytes \<Rightarrow> error + (bytes \<times> bytes) list" where
  "finish res =
     (case res of
        Inl (CalledProcessError err) \<Rightarrow> Inl (CredentialNotFoundError (Bytes err))
      | Inl FileNotFoundError \<Rightarrow> Inl (CredentialNotFoundError (Text ''Helper not found''))
      | Inl other \<Rightarrow> Inl other
      | Inr out \<Rightarrow>
          (let credentials = parse_output out
           in if \<not> (credentials \<noteq> [] \<and> has_key ''username'' credentials \<and> has_key ''password'' credentials)
              then Inl (CredentialNotFoundError (Text ''Could not get credentials from helper''))
              else Inr credentials))"

definition get :: "env \<Rightarrow> helper \<Rightarrow> str \<Rightarrow> error + (bytes \<times> bytes) list" where
  "get e h url =
     (case prepare_command e h of
        Inl err \<Rightarrow> Inl err
      | Inr cmd \<Rightarrow>
          (case helper_input e url of
             Inl err \<Rightarrow> Inl err
           | Inr inp \<Rightarrow> finish (subprocess_run e (add_get cmd) (run_shell h) inp)))"

definition store :: "helper \<Rightarrow> 'a \<Rightarrow> error + unit" where
  "store h args = Inl NotImplementedError"

definition erase :: "helper \<Rightarrow> 'a \<Rightarrow> error + unit" where
  "erase h args = Inl NotImplementedError"

subsection \<open>A POSIX environment with stubbed collaborators\<close>

text \<open>
  The test suite replaces \<open>shutil.which\<close>, \<open>subprocess.check_output\<close> and
  \<open>subprocess.run\<close> by stubs; \<open>mock_env\<close> does the same on a POSIX system, with
  \<open>posixpath.isabs\<close> and \<open>posixpath.join\<close>. \<open>blank_words\<close> stands for \<open>shlex.split\<close>
  and agrees with it on commands made of words separated by blanks, without quotes or
  backslashes.
\<close>

definition posix_isabs :: "str \<Rightarrow> bool" where
  "posix_isabs s \<longleftrightarrow> s \<noteq> [] \<and> hd s = 47"

definition posix_join :: "str \<Rightarrow> str \<Rightarrow> str" where
  "posix_join a b =
     (if b \<noteq> [] \<and> hd b = 47 then b
      else if a = [] \<or> last a = 47 then a @ b
      else a @ [47] @ b)"

fun blank_words :: "str \<Rightarrow> str \<Rightarrow> str list" where
  "blank_words w [] = (if w = [] then [] else [w])"
| "blank_words w (c # cs) =
     (if c = 32 then (if w = [] then blank_words [] cs else w # blank_words [] cs)
      else blank_words (w @ [c]) cs)"

definition mock_env :: "(str \<Rightarrow> bool) \<Rightarrow> (str \<Rightarrow> str \<Rightarrow> bool) \<Rightarrow> error + str \<Rightarrow> proc \<Rightarrow> env" where
  "mock_env w wi gp p =
     \<lparr>win32 = False, shlex_split = (\<lambda>s. Inr (blank_words [] s)), isabs = posix_isabs,
      path_join = posix_join, which = w, which_in = wi, git_exec_path_output = gp,
      launch = (\<lambda>cmd sh inp. p)\<rparr>"

text \<open>The stub of most tests: every executable is found, the process does \<open>p\<close>.\<close>

definition found_env :: "proc \<Rightarrow> env" where
  "found_env p = mock_env (\<lambda>name. True) (\<lambda>name dir. True) (Inl FileNotFoundError) p"

definition newline :: bytes where
  "newline = [CHR 0x0A]"

section \<open>Properties\<close>

subsection \<open>Auxiliary facts\<close>

lemmas eval_defs =
  ustr_def encode_ascii_def py_isspace_def str_strip_def split_first_def bytes_isspace_def
  bytes_strip_def is_linebreak_def splitlines_def linesep_def subprocess_run_def fix_argv0_def
  resolve_executable_def prepare_command_def parse_output_def has_key_def add_get_def
  helper_input_def finish_def get_def posix_isabs_def posix_join_def mock_env_def found_env_def
  newline_def

lemma split_on_not_Nil: "split_on sep s \<noteq> []"
  by (induction s) (auto split: list.splits)

lemma split_on_absent: "sep \<notin> set s \<Longrightarrow> split_on sep s = [s]"
  by (induction s) auto

lemma split_on_first: "sep \<notin> set k \<Longrightarrow> split_on sep (k @ sep # v) = k # split_on sep v"
  by (induction k) auto

lemma length_split_on: "length (split_on sep s) = Suc (length (filter (\<lambda>c. c = sep) s))"
proof (induction s)
  case Nil
  show ?case by simp
next
  case (Cons c cs)
  then show ?case
    by (cases "split_on sep cs") (auto simp: split_on_not_Nil)
qed

lemma parse_lines_skip:
  "length (split_on CHR ''='' line) \<noteq> 2 \<Longrightarrow> parse_lines (line # rest) creds = parse_lines rest creds"
  by (auto split: list.splits)

lemma parse_lines_pair:
  "split_on CHR ''='' line = [k, v] \<Longrightarrow>
     parse_lines (line # rest) creds = parse_lines rest (AList.update k v creds)"
  by simp

lemma parse_lines_append:
  "parse_lines (xs @ ys) creds = parse_lines ys (parse_lines xs creds)"
  by (induction xs arbitrary: creds) (auto split: list.splits)

lemma parse_lines_other_key:
  "\<forall>l\<in>set ls. \<forall>v'. split_on CHR ''='' l \<noteq> [k, v'] \<Longrightarrow>
     map_of (parse_lines ls creds) k = map_of creds k"
proof (induction ls arbitrary: creds)
  case Nil
  show ?case by simp
next
  case (Cons l ls)
  then have rest: "\<And>c. map_of (parse_lines ls c) k = map_of c k"
    by simp
  show ?case
  proof (cases "\<exists>k' v'. split_on CHR ''='' l = [k', v']")
    case True
    then obtain k' v' where kv: "split_on CHR ''='' l = [k', v']" by blast
    with Cons.prems have "k' \<noteq> k" by auto
    then show ?thesis
      using kv rest by (simp add: update_conv')
  next
    case False
    then have "parse_lines (l # ls) creds = parse_lines ls creds"
      by (auto split: list.splits)
    then show ?thesis using rest by simp
  qed
qed

lemma finish_Inr:
  "finish res = Inr m \<Longrightarrow>
     \<exists>out. res = Inr out \<and> m = parse_output out \<and> m \<noteq> [] \<and>
           has_key ''username'' m \<and> has_key ''password'' m"
  unfolding finish_def
  by (cases res) (auto simp: Let_def split: error.splits if_splits)

lemma subprocess_run_Inr:
  "subprocess_run e cmd sh inp = Inr out \<Longrightarrow> \<exists>err. launch e cmd sh inp = Exited 0 out err"
  unfolding subprocess_run_def
  by (auto split: proc.splits if_splits)

lemma finish_subprocess_run:
  "(\<exists>rc out err. launch e cmd sh inp = Exited rc out err) \<or> launch e cmd sh inp = LaunchNotFound \<Longrightarrow>
     (\<exists>m. finish (subprocess_run e cmd sh inp) = Inr m) \<or>
     (\<exists>p. finish (subprocess_run e cmd sh inp) = Inl (CredentialNotFoundError p))"
  unfolding finish_def subprocess_run_def
  by (cases "launch e cmd sh inp") (auto simp: Let_def)

lemma parse_lines_keeps_keys:
  "map_of creds k \<noteq> None \<Longrightarrow> map_of (parse_lines ls creds) k \<noteq> None"
proof (induction ls arbitrary: creds)
  case Nil
  then show ?case by simp
next
  case (Cons l ls)
  show ?case
  proof (cases "\<exists>k' v'. split_on CHR ''='' l = [k', v']")
    case True
    then obtain k' v' where kv: "split_on CHR ''='' l = [k', v']" by blast
    from Cons.prems have "map_of (AList.update k' v' creds) k \<noteq> None"
      by (simp add: update_conv')
    then have "map_of (parse_lines ls (AList.update k' v' creds)) k \<noteq> None"
      by (rule Cons.IH)
    with kv show ?thesis by simp
  next
    case False
    then have "parse_lines (l # ls) creds = parse_lines ls creds"
      by (auto split: list.splits)
    with Cons show ?thesis by simp
  qed
qed

lemma ascii_request:
  "list_all (\<lambda>c. c < 128) (ustr ''url='' @ url @ linesep e) \<longleftrightarrow> list_all (\<lambda>c. c < 128) url"
proof -
  have "list_all (\<lambda>c. c < 128) (ustr ''url='')"
    by (simp add: ustr_def)
  moreover have "list_all (\<lambda>c. c < 128) (linesep e)"
    by (simp add: linesep_def)
  ultimately show ?thesis by simp
qed

text \<open>Evaluations at the inputs of the test suite.\<close>

lemma prepare_foo:
  "prepare_command (found_env p) \<lparr>command = ustr ''foo'', run_shell = False\<rparr>
     = Inr (Argv [ustr ''git-credential-foo''])"
  by (simp add: eval_defs)

lemma char_of_ustr: "map char_of (ustr s) = s"
  by (induction s) (simp_all add: ustr_def)

lemma char_of_linefeed: "[char_of (10 :: nat)] = newline"
  unfolding newline_def by code_simp

lemma ascii_ustr_example: "list_all (\<lambda>c. c < 128) (ustr ''https://example.com'')"
  by (simp add: ustr_def)

lemma ascii_ustr_dummy: "list_all (\<lambda>c. c < 128) (ustr ''dummy'')"
  by (simp add: ustr_def)

lemma helper_input_ascii:
  "list_all (\<lambda>c. c < 128) url \<Longrightarrow>
     helper_input e url = Inr (''url='' @ map char_of url @ map char_of (linesep e))"
  using char_of_ustr [of "''url=''"]
  by (simp add: helper_input_def encode_ascii_def ascii_request del: list_all_append)

lemma helper_input_example:
  "helper_input (mock_env w wi gp p) (ustr ''https://example.com'')
     = Inr (''url=https://example.com'' @ newline)"
  using helper_input_ascii [OF ascii_ustr_example, of "mock_env w wi gp p"]
    char_of_ustr [of "''https://example.com''"] char_of_linefeed
  by (simp add: linesep_def mock_env_def)

lemma helper_input_dummy:
  "helper_input (mock_env w wi gp p) (ustr ''dummy'') = Inr (''url=dummy'' @ newline)"
  using helper_input_ascii [OF ascii_ustr_dummy, of "mock_env w wi gp p"]
    char_of_ustr [of "''dummy''"] char_of_linefeed
  by (simp add: linesep_def mock_env_def)

lemma parse_output_complete:
  "parse_output (''username=u'' @ newline @ ''password=p'' @ newline)
     = [(''username'', ''u''), (''password'', ''p'')]"
  by (simp add: eval_defs)


lemma prepare_dummy:
  "prepare_command (found_env p) \<lparr>command = ustr ''dummy'', run_shell = False\<rparr>
     = Inr (Argv [ustr ''git-credential-dummy''])"
  by (simp add: eval_defs)

lemma launch_mock: "launch (mock_env w wi gp p) cmd sh inp = p"
  by (simp add: mock_env_def)

lemma launch_found: "launch (found_env p) cmd sh inp = p"
  by (simp add: found_env_def mock_env_def)

lemma get_exited_zero:
  "prepare_command e h = Inr cmd \<Longrightarrow> helper_input e url = Inr inp \<Longrightarrow>
   launch e (add_get cmd) (run_shell h) inp = Exited 0 out err \<Longrightarrow>
   get e h url = finish (Inr out)"
  by (simp add: get_def subprocess_run_def)

lemma finish_complete:
  "parse_output out = m \<Longrightarrow> m \<noteq> [] \<Longrightarrow> has_key ''username'' m \<Longrightarrow> has_key ''password'' m \<Longrightarrow>
   finish (Inr out) = Inr m"
  by (simp add: finish_def)

lemma finish_incomplete:
  "parse_output out = m \<Longrightarrow> \<not> has_key ''password'' m \<Longrightarrow>
   finish (Inr out) = Inl (CredentialNotFoundError (Text ''Could not get credentials from helper''))"
  by (simp add: finish_def)

subsection \<open>What \<open>get\<close> returns\<close>

text \<open>
  C1, as amended. A mapping that \<open>get\<close> returns is never empty and has both the key
  \<open>username\<close> and the key \<open>password\<close>; it is the parsed standard output of a helper
  that exited with status 0. Whenever the command was resolved, the request was encoded and
  the helper process ran and exited (with any status) or could not be launched because the
  executable was not found, \<open>get\<close> either returns such a mapping or fails with
  \<open>CredentialNotFoundError\<close>. (Errors of the resolution, of the encoding and every other
  exception of the launch are raised as they are, so "every other outcome" does not hold
  without these conditions.)
\<close>

theorem get_only_complete_mapping:
  "(\<forall>m. get e h url = Inr m \<longrightarrow>
        m \<noteq> [] \<and> has_key ''username'' m \<and> has_key ''password'' m \<and>
        (\<exists>cmd inp out err. prepare_command e h = Inr cmd \<and> helper_input e url = Inr inp \<and>
           launch e (add_get cmd) (run_shell h) inp = Exited 0 out err \<and> m = parse_output out)) \<and>
   (\<forall>cmd inp. prepare_command e h = Inr cmd \<and> helper_input e url = Inr inp \<and>
        ((\<exists>rc out err. launch e (add_get cmd) (run_shell h) inp = Exited rc out err) \<or>
         launch e (add_get cmd) (run_shell h) inp = LaunchNotFound) \<longrightarrow>
        (\<exists>m. get e h url = Inr m) \<or> (\<exists>p. get e h url = Inl (CredentialNotFoundError p)))"
proof (rule conjI; intro allI; rule impI)
  fix m
  assume g: "get e h url = Inr m"
  then obtain cmd inp where c: "prepare_command e h = Inr cmd" and i: "helper_input e url = Inr inp"
    and f: "finish (subprocess_run e (add_get cmd) (run_shell h) inp) = Inr m"
    unfolding get_def by (auto split: sum.splits)
  from finish_Inr [OF f] obtain out where
    r: "subprocess_run e (add_get cmd) (run_shell h) inp = Inr out" and
    m: "m = parse_output out" "m \<noteq> []" "has_key ''username'' m" "has_key ''password'' m"
    by blast
  from subprocess_run_Inr [OF r] obtain err where
    "launch e (add_get cmd) (run_shell h) inp = Exited 0 out err" ..
  with c i m
  show "m \<noteq> [] \<and> has_key ''username'' m \<and> has_key ''password'' m \<and>
        (\<exists>cmd inp out err. prepare_command e h = Inr cmd \<and> helper_input e url = Inr inp \<and>
           launch e (add_get cmd) (run_shell h) inp = Exited 0 out err \<and> m = parse_output out)"
    by blast
next
  fix cmd inp
  assume a: "prepare_command e h = Inr cmd \<and> helper_input e url = Inr inp \<and>
        ((\<exists>rc out err. launch e (add_get cmd) (run_shell h) inp = Exited rc out err) \<or>
         launch e (add_get cmd) (run_shell h) inp = LaunchNotFound)"
  then have "get e h url = finish (subprocess_run e (add_get cmd) (run_shell h) inp)"
    by (simp add: get_def)
  moreover from a have
    "(\<exists>m. finish (subprocess_run e (add_get cmd) (run_shell h) inp) = Inr m) \<or>
     (\<exists>p. finish (subprocess_run e (add_get cmd) (run_shell h) inp) = Inl (CredentialNotFoundError p))"
    by (intro finish_subprocess_run) blast
  ultimately show "(\<exists>m. get e h url = Inr m) \<or> (\<exists>p. get e h url = Inl (CredentialNotFoundError p))"
    by simp
qed

text \<open>The theorem at the input of \<open>test_get\<close>: the helper \<open>foo\<close> answers with both keys.\<close>

theorem get_only_complete_mapping_witness:
  "prepare_command (found_env (Exited 0 (''username=u'' @ newline @ ''password=p'' @ newline) []))
      \<lparr>command = ustr ''foo'', run_shell = False\<rparr> = Inr (Argv [ustr ''git-credential-foo'']) \<and>
   helper_input (found_env (Exited 0 (''username=u'' @ newline @ ''password=p'' @ newline) []))
      (ustr ''https://example.com'') = Inr (''url=https://example.com'' @ newline) \<and>
   launch (found_env (Exited 0 (''username=u'' @ newline @ ''password=p'' @ newline) []))
      (add_get (Argv [ustr ''git-credential-foo''])) False (''url=https://example.com'' @ newline)
     = Exited 0 (''username=u'' @ newline @ ''password=p'' @ newline) [] \<and>
   get (found_env (Exited 0 (''username=u'' @ newline @ ''password=p'' @ newline) []))
      \<lparr>command = ustr ''foo'', run_shell = False\<rparr> (ustr ''https://example.com'')
     = Inr [(''username'', ''u''), (''password'', ''p'')] \<and>
   has_key ''username'' [(''username'', ''u''), (''password'', ''p'')] \<and>
   has_key ''password'' [(''username'', ''u''), (''password'', ''p'')]"
proof -
  let ?e = "found_env (Exited 0 (''username=u'' @ newline @ ''password=p'' @ newline) [])"
  let ?h = "\<lparr>command = ustr ''foo'', run_shell = False\<rparr>"
  let ?url = "ustr ''https://example.com''"
  have p: "prepare_command ?e ?h = Inr (Argv [ustr ''git-credential-foo''])"
    by (rule prepare_foo)
  have i: "helper_input ?e ?url = Inr (''url=https://example.com'' @ newline)"
    unfolding found_env_def by (rule helper_input_example)
  have l: "launch ?e (add_get (Argv [ustr ''git-credential-foo''])) False
             (''url=https://example.com'' @ newline)
             = Exited 0 (''username=u'' @ newline @ ''password=p'' @ newline) []"
    by (rule launch_found)
  have "get ?e ?h ?url = finish (Inr (''username=u'' @ newline @ ''password=p'' @ newline))"
    by (rule get_exited_zero [OF p i]) (simp add: launch_found)
  also have "\<dots> = Inr [(''username'', ''u''), (''password'', ''p'')]"
    by (rule finish_complete [OF parse_output_complete]) (simp_all add: has_key_def)
  finally have g: "get ?e ?h ?url = Inr [(''username'', ''u''), (''password'', ''p'')]" .
  from get_only_complete_mapping [of ?e ?h ?url] g
  have k: "has_key ''username'' [(''username'', ''u''), (''password'', ''p'')] \<and>
           has_key ''password'' [(''username'', ''u''), (''password'', ''p'')]"
    by blast
  from p i l g k show ?thesis by blast
qed

text \<open>
  C1 as stated fails: with a URL that has a code point outside ASCII (here U+00E9), the
  call ends in \<open>UnicodeEncodeError\<close>, which is neither a mapping nor
  \<open>CredentialNotFoundError\<close>.
\<close>

theorem get_non_ascii_url_counterexample:
  "get (found_env (Exited 0 (''username=u'' @ newline @ ''password=p'' @ newline) []))
      \<lparr>command = ustr ''foo'', run_shell = False\<rparr> (ustr ''https://caf'' @ [233] @ ustr ''.example'')
     = Inl UnicodeEncodeError"
  unfolding get_def prepare_foo
  by (simp add: helper_input_def encode_ascii_def)

subsection \<open>Failures of the helper process\<close>

text \<open>
  C5. When the helper process runs and exits with a status other than 0, \<open>get\<close> fails with
  \<open>CredentialNotFoundError\<close> whose payload is the standard error of the process.
\<close>

theorem get_nonzero_exit:
  assumes "prepare_command e h = Inr cmd"
    and "helper_input e url = Inr inp"
    and "launch e (add_get cmd) (run_shell h) inp = Exited rc out err"
    and "rc \<noteq> 0"
  shows "get e h url = Inl (CredentialNotFoundError (Bytes err))"
  using assms by (simp add: get_def subprocess_run_def finish_def)

text \<open>The helper \<open>dummy\<close> exits with status 1 and \<open>boom\<close> on its standard error.\<close>

theorem get_nonzero_exit_witness:
  "prepare_command (found_env (Exited 1 [] ''boom'')) \<lparr>command = ustr ''dummy'', run_shell = False\<rparr>
     = Inr (Argv [ustr ''git-credential-dummy'']) \<and>
   helper_input (found_env (Exited 1 [] ''boom'')) (ustr ''dummy'') = Inr (''url=dummy'' @ newline) \<and>
   launch (found_env (Exited 1 [] ''boom'')) (add_get (Argv [ustr ''git-credential-dummy''])) False
     (''url=dummy'' @ newline) = Exited 1 [] ''boom'' \<and>
   get (found_env (Exited 1 [] ''boom'')) \<lparr>command = ustr ''dummy'', run_shell = False\<rparr> (ustr ''dummy'')
     = Inl (CredentialNotFoundError (Bytes ''boom''))"
proof -
  let ?e = "found_env (Exited 1 [] ''boom'')"
  let ?h = "\<lparr>command = ustr ''dummy'', run_shell = False\<rparr>"
  have p: "prepare_command ?e ?h = Inr (Argv [ustr ''git-credential-dummy''])"
    by (rule prepare_dummy)
  have i: "helper_input ?e (ustr ''dummy'') = Inr (''url=dummy'' @ newline)"
    unfolding found_env_def by (rule helper_input_dummy)
  have l: "launch ?e (add_get (Argv [ustr ''git-credential-dummy''])) (run_shell ?h) (''url=dummy'' @ newline)
             = Exited 1 [] ''boom''"
    by (rule launch_found)
  have "(1::int) \<noteq> 0" by simp
  from get_nonzero_exit [OF p i l this] p i l show ?thesis by simp
qed

text \<open>
  C6, as amended. When launching the helper fails because the executable is not found
  (\<open>FileNotFoundError\<close>), \<open>get\<close> fails with \<open>CredentialNotFoundError\<close> and the message
  \<open>Helper not found\<close>.
\<close>

theorem get_helper_not_found:
  assumes "prepare_command e h = Inr cmd"
    and "helper_input e url = Inr inp"
    and "launch e (add_get cmd) (run_shell h) inp = LaunchNotFound"
  shows "get e h url = Inl (CredentialNotFoundError (Text ''Helper not found''))"
  using assms by (simp add: get_def subprocess_run_def finish_def)

text \<open>The input of \<open>test_get_nonexisting_executable\<close>: nothing is on the search path.\<close>

theorem get_helper_not_found_witness:
  "prepare_command (mock_env (\<lambda>name. False) (\<lambda>name dir. False) (Inl FileNotFoundError) LaunchNotFound)
      \<lparr>command = ustr ''nonexisting'', run_shell = False\<rparr>
     = Inr (Argv [ustr ''git-credential-nonexisting'']) \<and>
   helper_input (mock_env (\<lambda>name. False) (\<lambda>name dir. False) (Inl FileNotFoundError) LaunchNotFound)
      (ustr ''dummy'') = Inr (''url=dummy'' @ newline) \<and>
   launch (mock_env (\<lambda>name. False) (\<lambda>name dir. False) (Inl FileNotFoundError) LaunchNotFound)
      (add_get (Argv [ustr ''git-credential-nonexisting''])) False (''url=dummy'' @ newline)
     = LaunchNotFound \<and>
   get (mock_env (\<lambda>name. False) (\<lambda>name dir. False) (Inl FileNotFoundError) LaunchNotFound)
      \<lparr>command = ustr ''nonexisting'', run_shell = False\<rparr> (ustr ''dummy'')
     = Inl (CredentialNotFoundError (Text ''Helper not found''))"
proof -
  let ?e = "mock_env (\<lambda>name. False) (\<lambda>name dir. False) (Inl FileNotFoundError) LaunchNotFound"
  let ?h = "\<lparr>command = ustr ''nonexisting'', run_shell = False\<rparr>"
  have p: "prepare_command ?e ?h = Inr (Argv [ustr ''git-credential-nonexisting''])"
    by (simp add: eval_defs)
  have i: "helper_input ?e (ustr ''dummy'') = Inr (''url=dummy'' @ newline)"
    by (rule helper_input_dummy)
  have l: "launch ?e (add_get (Argv [ustr ''git-credential-nonexisting''])) (run_shell ?h)
             (''url=dummy'' @ newline) = LaunchNotFound"
    by (rule launch_mock)
  from get_helper_not_found [OF p i l] p i l show ?thesis by simp
qed

text \<open>
  C6 as stated fails: a helper that cannot be started for another reason than a missing
  file (an absolute path to a file that is not executable raises \<open>PermissionError\<close>, a path
  through a regular file \<open>NotADirectoryError\<close>) makes \<open>get\<close> fail with that error, not with
  \<open>CredentialNotFoundError\<close>.
\<close>

theorem get_launch_failed_counterexample:
  "prepare_command (found_env LaunchFailed) \<lparr>command = ustr ''/etc/passwd'', run_shell = False\<rparr>
     = Inr (Argv [ustr ''/etc/passwd'']) \<and>
   launch (found_env LaunchFailed) (add_get (Argv [ustr ''/etc/passwd''])) False (''url=dummy'' @ newline)
     = LaunchFailed \<and>
   get (found_env LaunchFailed) \<lparr>command = ustr ''/etc/passwd'', run_shell = False\<rparr> (ustr ''dummy'')
     = Inl OSError"
proof -
  let ?e = "found_env LaunchFailed"
  let ?h = "\<lparr>command = ustr ''/etc/passwd'', run_shell = False\<rparr>"
  have p: "prepare_command ?e ?h = Inr (Argv [ustr ''/etc/passwd''])"
    by (simp add: eval_defs)
  have i: "helper_input ?e (ustr ''dummy'') = Inr (''url=dummy'' @ newline)"
    unfolding found_env_def by (rule helper_input_dummy)
  have "get ?e ?h (ustr ''dummy'') = Inl OSError"
    unfolding get_def p i by (simp add: subprocess_run_def launch_found finish_def)
  with p show ?thesis by (simp add: launch_found)
qed

subsection \<open>The request\<close>

text \<open>
  C9. Once the command is resolved, the bytes given to the helper process as its standard
  input are the ASCII encoding of \<open>url=\<close>, the URL and the line terminator of the platform,
  and the result of \<open>get\<close> is what the outcome of that process yields; when the URL has a
  code point that is not ASCII, \<open>get\<close> fails with \<open>UnicodeEncodeError\<close>, which is not
  \<open>CredentialNotFoundError\<close>, and no process is launched.
\<close>

theorem get_helper_input:
  assumes "prepare_command e h = Inr cmd"
  shows "get e h url =
           (if list_all (\<lambda>c. c < 128) url
            then finish (subprocess_run e (add_get cmd) (run_shell h)
                   (map char_of (ustr ''url='' @ url @ linesep e)))
            else Inl UnicodeEncodeError)"
  using assms
  by (simp add: get_def helper_input_def encode_ascii_def ascii_request
        del: list_all_append map_append)

text \<open>The same helper asked for an ASCII URL and for one with the euro sign (U+20AC).\<close>

theorem get_helper_input_witness:
  "prepare_command (found_env (Exited 0 (''username=u'' @ newline @ ''password=p'' @ newline) []))
      \<lparr>command = ustr ''foo'', run_shell = False\<rparr> = Inr (Argv [ustr ''git-credential-foo'']) \<and>
   get (found_env (Exited 0 (''username=u'' @ newline @ ''password=p'' @ newline) []))
      \<lparr>command = ustr ''foo'', run_shell = False\<rparr> (ustr ''http://'' @ [8364])
     = Inl UnicodeEncodeError \<and>
   get (found_env (Exited 0 (''username=u'' @ newline @ ''password=p'' @ newline) []))
      \<lparr>command = ustr ''foo'', run_shell = False\<rparr> (ustr ''dummy'')
     = finish (subprocess_run (found_env (Exited 0 (''username=u'' @ newline @ ''password=p'' @ newline) []))
         (Argv [ustr ''git-credential-foo'', ustr ''get'']) False (''url=dummy'' @ newline))"
proof -
  let ?e = "found_env (Exited 0 (''username=u'' @ newline @ ''password=p'' @ newline) [])"
  let ?h = "\<lparr>command = ustr ''foo'', run_shell = False\<rparr>"
  have p: "prepare_command ?e ?h = Inr (Argv [ustr ''git-credential-foo''])"
    by (rule prepare_foo)
  have a: "\<not> list_all (\<lambda>c. c < 128) (ustr ''http://'' @ [8364])"
    by simp
  have c: "map char_of (ustr ''url='' @ ustr ''dummy'' @ linesep ?e) = ''url=dummy'' @ newline"
    using char_of_ustr [of "''url=''"] char_of_ustr [of "''dummy''"] char_of_linefeed
    by (simp add: linesep_def found_env_def mock_env_def)
  have d: "add_get (Argv [ustr ''git-credential-foo'']) = Argv [ustr ''git-credential-foo'', ustr ''get'']"
    by (simp add: add_get_def)
  from get_helper_input [OF p, of "ustr ''http://'' @ [8364]"]
  have n: "get ?e ?h (ustr ''http://'' @ [8364]) = Inl UnicodeEncodeError"
    unfolding if_not_P [OF a] .
  from get_helper_input [OF p, of "ustr ''dummy''"]
  have "get ?e ?h (ustr ''dummy'')
          = finish (subprocess_run ?e (Argv [ustr ''git-credential-foo'', ustr ''get'']) False
              (''url=dummy'' @ newline))"
    unfolding if_P [OF ascii_ustr_dummy] c d by simp
  with p n show ?thesis by blast
qed

subsection \<open>Parsing the output of the helper\<close>

text \<open>
  C3, as amended. The standard output is stripped of whitespace at both ends and cut into
  lines; every such line with exactly one \<open>=\<close> is split there: the text before it is
  the key, the text after it the value, and the pair is written into the mapping that the
  lines before it gave, so the key is in the parsed output.
\<close>

theorem parse_line_single_eq:
  assumes "splitlines (bytes_strip out) = pre @ (k @ CHR ''='' # v) # post"
    and "CHR ''='' \<notin> set k" and "CHR ''='' \<notin> set v"
  shows "parse_output out = parse_lines post (AList.update k v (parse_lines pre [])) \<and>
         has_key k (parse_output out)"
proof -
  have "split_on CHR ''='' (k @ CHR ''='' # v) = [k, v]"
    using assms(2,3) by (simp add: split_on_first split_on_absent)
  then have "parse_lines ((k @ CHR ''='' # v) # post) (parse_lines pre [])
               = parse_lines post (AList.update k v (parse_lines pre []))"
    by (rule parse_lines_pair)
  then have eq: "parse_output out = parse_lines post (AList.update k v (parse_lines pre []))"
    unfolding parse_output_def assms(1) parse_lines_append .
  have "map_of (AList.update k v (parse_lines pre [])) k \<noteq> None"
    by (simp add: update_conv')
  then have "map_of (parse_lines post (AList.update k v (parse_lines pre []))) k \<noteq> None"
    by (rule parse_lines_keeps_keys)
  with eq show ?thesis
    unfolding has_key_def by simp
qed

text \<open>
  An output whose last line ends in a blank: the blank is stripped with the end of the
  output, and the line \<open>password=p\<close> is split after a user name has been read.
\<close>

theorem parse_line_single_eq_witness:
  "splitlines (bytes_strip (''username=u'' @ newline @ ''password=p '' @ newline))
     = [''username=u''] @ (''password'' @ CHR ''='' # ''p'') # [] \<and>
   CHR ''='' \<notin> set ''password'' \<and> CHR ''='' \<notin> set ''p'' \<and>
   parse_output (''username=u'' @ newline @ ''password=p '' @ newline)
     = [(''username'', ''u''), (''password'', ''p'')] \<and>
   has_key ''password'' (parse_output (''username=u'' @ newline @ ''password=p '' @ newline))"
proof -
  let ?out = "''username=u'' @ newline @ ''password=p '' @ newline"
  have l: "splitlines (bytes_strip ?out) = [''username=u''] @ (''password'' @ CHR ''='' # ''p'') # []"
    by (simp add: eval_defs)
  have k: "CHR ''='' \<notin> set ''password''" and v: "CHR ''='' \<notin> set ''p''"
    by simp_all
  have r: "parse_lines [] (AList.update ''password'' ''p'' (parse_lines [''username=u''] []))
             = [(''username'', ''u''), (''password'', ''p'')]"
    by simp
  from parse_line_single_eq [OF l k v]
  have "parse_output ?out = [(''username'', ''u''), (''password'', ''p'')]"
    and "has_key ''password'' (parse_output ?out)"
    unfolding r by blast+
  with l k v show ?thesis by blast
qed

text \<open>
  C3 as stated fails: \<open>line.split(b"=")\<close> cuts at every \<open>=\<close>, so the line
  \<open>password=a=b\<close> gives three parts, the unpacking into key and value raises \<open>ValueError\<close>
  and the line is passed over. The mapping has no password, and \<open>get\<close> fails.
\<close>

theorem parse_value_with_equals_counterexample:
  "split_on CHR ''='' ''password=a=b'' = [''password'', ''a'', ''b''] \<and>
   parse_output (''username=u'' @ newline @ ''password=a=b'' @ newline) = [(''username'', ''u'')] \<and>
   get (found_env (Exited 0 (''username=u'' @ newline @ ''password=a=b'' @ newline) []))
      \<lparr>command = ustr ''foo'', run_shell = False\<rparr> (ustr ''https://example.com'')
     = Inl (CredentialNotFoundError (Text ''Could not get credentials from helper''))"
proof -
  let ?out = "''username=u'' @ newline @ ''password=a=b'' @ newline"
  let ?e = "found_env (Exited 0 ?out [])"
  let ?h = "\<lparr>command = ustr ''foo'', run_shell = False\<rparr>"
  have s: "split_on CHR ''='' ''password=a=b'' = [''password'', ''a'', ''b'']"
    by simp
  have o: "parse_output ?out = [(''username'', ''u'')]"
    by (simp add: eval_defs)
  have i: "helper_input ?e (ustr ''https://example.com'') = Inr (''url=https://example.com'' @ newline)"
    unfolding found_env_def by (rule helper_input_example)
  have "get ?e ?h (ustr ''https://example.com'') = finish (Inr ?out)"
    by (rule get_exited_zero [OF prepare_foo i]) (simp add: launch_found)
  also have "\<dots> = Inl (CredentialNotFoundError (Text ''Could not get credentials from helper''))"
    by (rule finish_incomplete [OF o]) (simp add: has_key_def)
  finally show ?thesis using s o by blast
qed

text \<open>
  C8. Of the lines that the stripped standard output is cut into, a line of the wrong shape,
  that is a line in which the number of \<open>=\<close> is not one (in particular a line with none),
  changes nothing: the parsed output is what the lines before and after it give without
  it. Of several lines with the same key, the value of the last one is in the parsed
  output.
\<close>

theorem parse_skips_and_last_wins:
  "(splitlines (bytes_strip out) = pre @ bad # post \<and>
    length (filter (\<lambda>c. c = CHR ''='') bad) \<noteq> 1 \<longrightarrow>
      parse_output out = parse_lines (pre @ post) []) \<and>
   (splitlines (bytes_strip out) = pre' @ (k @ CHR ''='' # v) # post' \<and>
    CHR ''='' \<notin> set k \<and> CHR ''='' \<notin> set v \<and>
    (\<forall>l\<in>set post'. \<forall>v'. split_on CHR ''='' l \<noteq> [k, v']) \<longrightarrow>
      map_of (parse_output out) k = Some v)"
proof (rule conjI; rule impI)
  assume a: "splitlines (bytes_strip out) = pre @ bad # post \<and>
             length (filter (\<lambda>c. c = CHR ''='') bad) \<noteq> 1"
  then have "length (split_on CHR ''='' bad) \<noteq> 2"
    by (simp add: length_split_on)
  then have "parse_lines (bad # post) (parse_lines pre []) = parse_lines post (parse_lines pre [])"
    by (rule parse_lines_skip)
  then have "parse_lines (pre @ bad # post) [] = parse_lines (pre @ post) []"
    by (simp add: parse_lines_append)
  with a show "parse_output out = parse_lines (pre @ post) []"
    by (simp add: parse_output_def)
next
  assume a: "splitlines (bytes_strip out) = pre' @ (k @ CHR ''='' # v) # post' \<and>
             CHR ''='' \<notin> set k \<and> CHR ''='' \<notin> set v \<and>
             (\<forall>l\<in>set post'. \<forall>v'. split_on CHR ''='' l \<noteq> [k, v'])"
  then have "split_on CHR ''='' (k @ CHR ''='' # v) = [k, v]"
    by (simp add: split_on_first split_on_absent)
  then have "parse_lines (pre' @ (k @ CHR ''='' # v) # post') []
               = parse_lines post' (AList.update k v (parse_lines pre' []))"
    by (simp add: parse_lines_append)
  with a have "parse_output out = parse_lines post' (AList.update k v (parse_lines pre' []))"
    by (simp add: parse_output_def)
  moreover have "map_of (parse_lines post' (AList.update k v (parse_lines pre' []))) k
                   = map_of (AList.update k v (parse_lines pre' [])) k"
    using a by (intro parse_lines_other_key) blast
  ultimately show "map_of (parse_output out) k = Some v"
    by (simp add: update_conv')
qed

text \<open>
  An output with a line of chatter after the first pair and with the user name given
  twice: the chatter changes nothing, and the second user name is the one returned.
\<close>

theorem parse_skips_and_last_wins_witness:
  "splitlines (bytes_strip (''username=a'' @ newline @ ''chatter'' @ newline @ ''username=b'' @ newline
      @ ''password=p'' @ newline))
     = [''username=a''] @ ''chatter'' # [''username=b'', ''password=p''] \<and>
   length (filter (\<lambda>c. c = CHR ''='') ''chatter'') \<noteq> 1 \<and>
   CHR ''='' \<notin> set ''username'' \<and> CHR ''='' \<notin> set ''b'' \<and>
   split_on CHR ''='' ''password=p'' = [''password'', ''p''] \<and>
   parse_output (''username=a'' @ newline @ ''chatter'' @ newline @ ''username=b'' @ newline
      @ ''password=p'' @ newline)
     = [(''username'', ''b''), (''password'', ''p'')] \<and>
   map_of (parse_output (''username=a'' @ newline @ ''chatter'' @ newline @ ''username=b'' @ newline
      @ ''password=p'' @ newline)) ''username'' = Some ''b''"
proof -
  let ?out = "''username=a'' @ newline @ ''chatter'' @ newline @ ''username=b'' @ newline
      @ ''password=p'' @ newline"
  have l: "splitlines (bytes_strip ?out) = [''username=a''] @ ''chatter'' # [''username=b'', ''password=p'']"
    by (simp add: eval_defs)
  then have l': "splitlines (bytes_strip ?out)
                   = [''username=a'', ''chatter''] @ (''username'' @ CHR ''='' # ''b'') # [''password=p'']"
    by simp
  have c: "length (filter (\<lambda>c. c = CHR ''='') ''chatter'') \<noteq> 1"
    by simp
  have k: "CHR ''='' \<notin> set ''username''" and v: "CHR ''='' \<notin> set ''b''"
    by simp_all
  have s: "split_on CHR ''='' ''password=p'' = [''password'', ''p'']"
    by simp
  then have later: "\<forall>l\<in>set [''password=p'']. \<forall>v'. split_on CHR ''='' l \<noteq> [''username'', v']"
    by simp
  have r: "parse_lines ([''username=a''] @ [''username=b'', ''password=p'']) []
             = [(''username'', ''b''), (''password'', ''p'')]"
    by simp
  from parse_skips_and_last_wins [of ?out "[''username=a'']" "''chatter''"
      "[''username=b'', ''password=p'']" "[''username=a'', ''chatter'']" "''username''" "''b''"
      "[''password=p'']"]
  have "parse_output ?out = [(''username'', ''b''), (''password'', ''p'')]"
    and "map_of (parse_output ?out) ''username'' = Some ''b''"
    using l l' c k v later unfolding r by blast+
  with l c k v s show ?thesis by blast
qed



subsection \<open>Resolving the command\<close>

text \<open>
  C4. For a command that begins with \<open>!\<close>, \<open>_prepare_command\<close> returns the rest of the
  command after the \<open>!\<close> as one string for the shell, unchanged and not tokenised.
\<close>

theorem prepare_command_shell:
  assumes "command h = 33 # rest"
  shows "prepare_command e h = Inr (ShellStr rest)"
  using assms by (simp add: prepare_command_def)

text \<open>The shell function of \<open>test_prepare_command_shell\<close>.\<close>

theorem prepare_command_shell_witness:
  "command \<lparr>command = ustr ''!f() { echo foo}; f'', run_shell = True\<rparr>
     = 33 # ustr ''f() { echo foo}; f'' \<and>
   prepare_command (found_env LaunchNotFound) \<lparr>command = ustr ''!f() { echo foo}; f'', run_shell = True\<rparr>
     = Inr (ShellStr (ustr ''f() { echo foo}; f''))"
proof -
  have c: "command \<lparr>command = ustr ''!f() { echo foo}; f'', run_shell = True\<rparr>
             = 33 # ustr ''f() { echo foo}; f''"
    by (simp add: ustr_def)
  from prepare_command_shell [OF c] c show ?thesis by simp
qed



subsection \<open>Unsupported operations\<close>

text \<open>
  C7. For every helper and all arguments, \<open>store\<close> and \<open>erase\<close> fail with
  \<open>NotImplementedError\<close>, which is not a \<open>CredentialNotFoundError\<close>; neither returns.
\<close>

theorem store_erase_not_implemented:
  "store h args = Inl NotImplementedError \<and> erase h args' = Inl NotImplementedError \<and>
   (\<forall>p. NotImplementedError \<noteq> CredentialNotFoundError p) \<and>
   (\<forall>r. store h args \<noteq> Inr r) \<and> (\<forall>r. erase h args' \<noteq> Inr r)"
  by (simp add: store_def erase_def)

end
